theory Spec2Isabelle
  imports Complex_Main
begin

section \<open>ORB image matcher: a model of \<open>AI_lab2.py\<close>\<close>

text \<open>
  The program is one class, \<open>ImageMatcherApp\<close>: a window with three buttons, two
  checkboxes and a video label, a timer that calls \<open>update_frame\<close>, and a handful of
  fields. The model keeps the fields in a record and turns every method into a function
  from the old state to the new one. What a method reads from the outside world (the path
  chosen in the file dialog, the file system behind \<open>cv2.imread\<close>, whether the camera
  opens, the frame that \<open>cap.read()\<close> delivers, the ORB detector and the brute-force
  matcher of OpenCV) is an argument of its function.
\<close>

subsection \<open>Python floats\<close>

text \<open>
  \<open>scaling_factor = 450 / max(height, width)\<close> is a Python float (IEEE binary64) and so
  is \<open>width * scaling_factor\<close>. A finite binary64 value is modelled by the rational
  number it denotes, and each operation rounds the exact result to the nearest value with
  a 53-bit significand, ties to even. Exponents below the normal range are clamped to the
  subnormal spacing \<open>2\<^sup>-\<^sup>1\<^sup>0\<^sup>7\<^sup>4\<close>; overflow is not modelled (every value here is below
  \<open>2\<^sup>5\<^sup>3\<close>).
\<close>

definition pow2 :: "int \<Rightarrow> rat" where
  "pow2 e = (if 0 \<le> e then 2 ^ nat e else 1 / 2 ^ nat (- e))"

text \<open>Python's \<open>int.bit_length\<close> on a non-negative integer.\<close>

function bit_length :: "int \<Rightarrow> int" where
  "bit_length n = (if n \<le> 0 then 0 else 1 + bit_length (n div 2))"
  by pat_completeness auto
termination
  by (relation "measure nat") auto

declare bit_length.simps [simp del]

definition round_half_even :: "rat \<Rightarrow> int" where
  "round_half_even q =
     (let f = \<lfloor>q\<rfloor>; r = q - of_int f
      in if r < 1 / 2 then f else if 1 / 2 < r then f + 1 else if even f then f else f + 1)"

text \<open>For \<open>0 < x\<close>, \<open>binade x\<close> is the exponent \<open>e\<close> with \<open>2\<^sup>e \<le> x < 2\<^sup>e\<^sup>+\<^sup>1\<close>.\<close>

definition binade :: "rat \<Rightarrow> int" where
  "binade x = (if 1 \<le> x then bit_length \<lfloor>x\<rfloor> - 1 else - bit_length (\<lceil>1 / x\<rceil> - 1))"

definition round_double :: "rat \<Rightarrow> rat" where
  "round_double x =
     (if x = 0 then 0
      else let e = max (binade \<bar>x\<bar> - 52) (- 1074)
           in of_int (round_half_even (x / pow2 e)) * pow2 e)"

text \<open>\<open>a / b\<close> on two Python ints: the correctly rounded quotient, or ZeroDivisionError.\<close>

datatype error = ZeroDivisionError | Cv2Error

definition truediv :: "int \<Rightarrow> int \<Rightarrow> error + rat" where
  "truediv a b = (if b = 0 then Inl ZeroDivisionError else Inr (round_double (of_int a / of_int b)))"

text \<open>\<open>n * x\<close> on an int and a float: the int is converted to a float first.\<close>

definition int_times_float :: "int \<Rightarrow> rat \<Rightarrow> rat" where
  "int_times_float n x = round_double (round_double (of_int n) * x)"

text \<open>\<open>int(x)\<close> on a float truncates towards zero.\<close>

definition py_int :: "rat \<Rightarrow> int" where
  "py_int x = (if 0 \<le> x then \<lfloor>x\<rfloor> else \<lceil>x\<rceil>)"

subsection \<open>Images and the OpenCV calls made on them\<close>

text \<open>
  A \<open>DMatch\<close> of OpenCV. With \<open>NORM_HAMMING\<close> the distance is the number of differing
  descriptor bits, a whole number.
\<close>

record dmatch =
  queryIdx :: int
  trainIdx :: int
  imgIdx :: int
  distance :: nat

datatype conversion = COLOR_BGR2GRAY | COLOR_BGR2RGB

text \<open>
  Pixel contents are never inspected by the program, so an image is the raster that came
  from a file or from the camera (rows, columns and its pixels \<open>'px\<close>) together with the
  OpenCV calls the program made on it:
  \<^item> \<open>Resize src w h\<close> is \<open>cv2.resize(src, (w, h))\<close>;
  \<^item> \<open>ResizeBy src fx fy\<close> is \<open>cv2.resize(src, (0, 0), fx=fx, fy=fy)\<close>;
  \<^item> \<open>CvtColor src code\<close> is \<open>cv2.cvtColor(src, code)\<close>;
  \<^item> \<open>DrawKeypoints src kps\<close> is \<open>cv2.drawKeypoints(src, kps, None, color=(0, 255, 0),
    flags=cv2.DrawMatchesFlags_DEFAULT)\<close>;
  \<^item> \<open>DrawMatches img1 kp1 img2 kp2 ms\<close> is \<open>cv2.drawMatches(img1, kp1, img2, kp2, ms,
    None, flags=cv2.DrawMatchesFlags_NOT_DRAW_SINGLE_POINTS)\<close>: the two images side by
    side with one line for each match of \<open>ms\<close>.
\<close>

datatype ('px, 'kp) image =
    Raster int int 'px
  | Resize "('px, 'kp) image" int int
  | ResizeBy "('px, 'kp) image" int int
  | CvtColor "('px, 'kp) image" conversion
  | DrawKeypoints "('px, 'kp) image" "'kp list"
  | DrawMatches "('px, 'kp) image" "'kp list" "('px, 'kp) image" "'kp list" "dmatch list"

text \<open>\<open>img.shape[:2]\<close>: rows (height) first, columns (width) second.\<close>

fun shape :: "('px, 'kp) image \<Rightarrow> int \<times> int" where
  "shape (Raster r c p) = (r, c)"
| "shape (Resize src w h) = (h, w)"
| "shape (ResizeBy src fx fy) = (fst (shape src) * fy, snd (shape src) * fx)"
| "shape (CvtColor src code) = shape src"
| "shape (DrawKeypoints src kps) = shape src"
| "shape (DrawMatches img1 kp1 img2 kp2 ms) =
     (max (fst (shape img1)) (fst (shape img2)), snd (shape img1) + snd (shape img2))"

text \<open>
  \<open>cv2.resize(src, dsize)\<close> with neither \<open>fx\<close> nor \<open>fy\<close> given returns an image of exactly
  the size \<open>dsize = (width, height)\<close>, and raises \<open>cv2.error\<close> when a component of
  \<open>dsize\<close> is not positive.
\<close>

definition resize :: "('px, 'kp) image \<Rightarrow> int \<times> int \<Rightarrow> error + ('px, 'kp) image" where
  "resize src dsize =
     (let (w, h) = dsize
      in if w \<le> 0 \<or> h \<le> 0 then Inl Cv2Error else Inr (Resize src w h))"

subsection \<open>The application object\<close>

text \<open>\<open>cv2.VideoCapture\<close>: the device index it was made for and whether it is open.\<close>

record capture =
  device :: int
  opened :: bool

text \<open>\<open>QTimer\<close>: running or not, and the interval of its last \<open>start\<close>.\<close>

record qtimer =
  active :: bool
  interval :: int

text \<open>What the \<open>QLabel\<close> shows: its text, a pixmap, or nothing after \<open>clear()\<close>.\<close>

datatype ('px, 'kp) label = Text string | Pixmap "('px, 'kp) image" | Blank

record ('px, 'kp) app =
  camera_on :: bool
  template_image :: "('px, 'kp) image option"
  display_markers :: bool
  connect_markers :: bool
  cap :: "capture option"
  timer :: qtimer
  video_label :: "('px, 'kp) label"
  marker_checkbox :: bool
  connect_checkbox :: bool
  stdout :: "string list"

text \<open>The state after \<open>__init__\<close> (which runs \<open>initUI\<close> first).\<close>

definition init_app :: "('px, 'kp) app" where
  "init_app =
     \<lparr>camera_on = False, template_image = None, display_markers = True,
      connect_markers = False, cap = None, timer = \<lparr>active = False, interval = 0\<rparr>,
      video_label = Text ''Camera feed'', marker_checkbox = True, connect_checkbox = False,
      stdout = []\<rparr>"

definition print :: "string \<Rightarrow> ('px, 'kp) app \<Rightarrow> ('px, 'kp) app" where
  "print line s = s\<lparr>stdout := stdout s @ [line]\<rparr>"

definition setPixmap :: "('px, 'kp) image \<Rightarrow> ('px, 'kp) app \<Rightarrow> ('px, 'kp) app" where
  "setPixmap img s = s\<lparr>video_label := Pixmap img\<rparr>"

subsection \<open>\<open>load_template_image\<close>\<close>

text \<open>
  \<open>file_path\<close> is what the file dialog returned (the empty string when it was cancelled)
  and \<open>imread\<close> is \<open>cv2.imread(_, cv2.IMREAD_GRAYSCALE)\<close> on the current file system:
  \<open>None\<close> where the file does not decode. The field \<open>template_image\<close> is assigned the
  result of \<open>imread\<close> before that result is tested.
\<close>

definition load_template_image ::
  "(string \<Rightarrow> ('px, 'kp) image option) \<Rightarrow> string \<Rightarrow> ('px, 'kp) app \<Rightarrow> error + ('px, 'kp) app"
where
  "load_template_image imread file_path s =
     (if file_path \<noteq> [] then
        let s1 = s\<lparr>template_image := imread file_path\<rparr>
        in (case template_image s1 of
              Some img \<Rightarrow>
                let s2 = print ''Template image loaded successfully.'' s1;
                    (height, width) = shape img
                in if max height width > 450 then
                     (case truediv 450 (max height width) of
                        Inl e \<Rightarrow> Inl e
                      | Inr scaling_factor \<Rightarrow>
                          (case resize img (py_int (int_times_float width scaling_factor),
                                            py_int (int_times_float height scaling_factor)) of
                             Inl e \<Rightarrow> Inl e
                           | Inr resized \<Rightarrow> Inr (s2\<lparr>template_image := Some resized\<rparr>)))
                   else Inr s2
            | None \<Rightarrow> Inr (print ''Failed to load template image.'' s1))
      else Inr s)"

subsection \<open>\<open>start_camera\<close>, \<open>stop_camera\<close> and the checkboxes\<close>

text \<open>\<open>available\<close> says whether \<open>cv2.VideoCapture(0)\<close> opened the device.\<close>

definition start_camera :: "bool \<Rightarrow> ('px, 'kp) app \<Rightarrow> ('px, 'kp) app" where
  "start_camera available s =
     (let s1 = s\<lparr>cap := Some \<lparr>device = 0, opened = available\<rparr>\<rparr>
      in if \<not> available then print ''Error: Cannot access the camera.'' s1
         else s1\<lparr>camera_on := True, timer := \<lparr>active = True, interval = 30\<rparr>\<rparr>)"

text \<open>
  \<open>if self.cap:\<close> holds for every capture object, open or released; \<open>release()\<close>,
  \<open>QTimer.stop()\<close> and \<open>QLabel.clear()\<close> never raise.
\<close>

definition stop_camera :: "('px, 'kp) app \<Rightarrow> ('px, 'kp) app" where
  "stop_camera s =
     (let s1 = (case cap s of
                  Some c \<Rightarrow> s\<lparr>cap := Some (c\<lparr>opened := False\<rparr>)\<rparr>
                | None \<Rightarrow> s)
      in s1\<lparr>camera_on := False,
            timer := (timer s1)\<lparr>active := False\<rparr>,
            video_label := Blank\<rparr>)"

definition toggle_markers :: "('px, 'kp) app \<Rightarrow> ('px, 'kp) app" where
  "toggle_markers s = s\<lparr>display_markers := marker_checkbox s\<rparr>"

definition toggle_connect_markers :: "('px, 'kp) app \<Rightarrow> ('px, 'kp) app" where
  "toggle_connect_markers s = s\<lparr>connect_markers := connect_checkbox s\<rparr>"

definition closeEvent :: "('px, 'kp) app \<Rightarrow> ('px, 'kp) app" where
  "closeEvent s = stop_camera s"

subsection \<open>\<open>update_frame\<close>\<close>

text \<open>
  The part of \<open>update_frame\<close> under \<open>if self.template_image is not None\<close>. It returns
  \<open>Some\<close> of the new state where the source displays a picture and returns, and \<open>None\<close>
  where control falls through to the default display. \<open>detectAndCompute\<close> is
  \<open>cv2.ORB_create().detectAndCompute(_, None)\<close>, whose descriptors are \<open>None\<close> when it
  finds no keypoint, and \<open>bf_match\<close> is
  \<open>cv2.BFMatcher(cv2.NORM_HAMMING, crossCheck=True).match\<close>. Python's \<open>sorted\<close> is
  stable, as \<open>sort_key\<close> is.
\<close>

definition with_template ::
  "(('px, 'kp) image \<Rightarrow> 'kp list \<times> 'des option) \<Rightarrow> ('des \<Rightarrow> 'des \<Rightarrow> dmatch list) \<Rightarrow>
   ('px, 'kp) image \<Rightarrow> ('px, 'kp) image \<Rightarrow> ('px, 'kp) image \<Rightarrow> ('px, 'kp) app \<Rightarrow>
   ('px, 'kp) app option"
where
  "with_template detectAndCompute bf_match tmpl frame gray_frame s =
     (let (kp1, des1) = detectAndCompute tmpl;
          (kp2, des2) = detectAndCompute gray_frame;
          matched =
            (case (des1, des2) of
               (Some d1, Some d2) \<Rightarrow>
                 let matches = sort_key distance (bf_match d1 d2)
                 in if connect_markers s then
                      let scale_factor = 1;
                          template_resized = ResizeBy tmpl scale_factor scale_factor;
                          result_image = DrawMatches template_resized kp1 frame kp2 (take 20 matches);
                          result_image_rgb = CvtColor result_image COLOR_BGR2RGB
                      in Some (setPixmap result_image_rgb s)
                    else None
             | _ \<Rightarrow> None)
      in case matched of
           Some s' \<Rightarrow> Some s'
         | None \<Rightarrow>
             if display_markers s then
               let frame_with_keypoints = DrawKeypoints frame kp2;
                   frame_rgb = CvtColor frame_with_keypoints COLOR_BGR2RGB
               in Some (setPixmap frame_rgb s)
             else None)"

text \<open>
  One timer tick. \<open>rd\<close> is what \<open>self.cap.read()\<close> would deliver: \<open>None\<close> for
  \<open>ret = False\<close>, \<open>Some frame\<close> otherwise.
\<close>

definition update_frame ::
  "(('px, 'kp) image \<Rightarrow> 'kp list \<times> 'des option) \<Rightarrow> ('des \<Rightarrow> 'des \<Rightarrow> dmatch list) \<Rightarrow>
   ('px, 'kp) image option \<Rightarrow> ('px, 'kp) app \<Rightarrow> ('px, 'kp) app"
where
  "update_frame detectAndCompute bf_match rd s =
     (case cap s of
        None \<Rightarrow> s
      | Some c \<Rightarrow>
          if \<not> opened c then s
          else
            (case rd of
               None \<Rightarrow> print ''Failed to read frame from camera.'' s
             | Some frame \<Rightarrow>
                 let gray_frame = CvtColor frame COLOR_BGR2GRAY;
                     shown =
                       (case template_image s of
                          Some tmpl \<Rightarrow> with_template detectAndCompute bf_match tmpl frame gray_frame s
                        | None \<Rightarrow> None)
                 in (case shown of
                       Some s' \<Rightarrow> s'
                     | None \<Rightarrow> setPixmap (CvtColor frame COLOR_BGR2RGB) s)))"

subsection \<open>Sample inputs\<close>

text \<open>
  Concrete files, frames, detectors and states at which the theorems below are
  evaluated. Pixels and keypoints carry no information here (type \<open>unit\<close>).
\<close>

definition unreadable :: "string \<Rightarrow> (unit, unit) image option" where
  "unreadable path = None"

definition one_file :: "(unit, unit) image \<Rightarrow> string \<Rightarrow> (unit, unit) image option" where
  "one_file img path = (if path = ''template.png'' then Some img else None)"

definition small_template :: "(unit, unit) image" where
  "small_template = Raster 300 400 ()"

definition square_591 :: "(unit, unit) image" where
  "square_591 = Raster 591 591 ()"

definition sample_frame :: "(unit, unit) image" where
  "sample_frame = Raster 480 640 ()"

definition loaded_app :: "(unit, unit) app" where
  "loaded_app = init_app\<lparr>template_image := Some small_template\<rparr>"

definition no_features :: "(unit, unit) image \<Rightarrow> unit list \<times> unit option" where
  "no_features img = ([], None)"

definition two_features :: "(unit, unit) image \<Rightarrow> unit list \<times> unit option" where
  "two_features img = ([(), ()], Some ())"

definition no_matches :: "unit \<Rightarrow> unit \<Rightarrow> dmatch list" where
  "no_matches d1 d2 = []"

text \<open>Twenty-two matches, delivered in descending order of distance: 30, 29, ..., 9.\<close>

definition many_matches :: "unit \<Rightarrow> unit \<Rightarrow> dmatch list" where
  "many_matches d1 d2 =
     map (\<lambda>i. \<lparr>queryIdx = i, trainIdx = i, imgIdx = 0, distance = nat (30 - i)\<rparr>) [0..21]"

definition camera_app :: "(unit, unit) app" where
  "camera_app = start_camera True init_app"

definition released_app :: "(unit, unit) app" where
  "released_app = stop_camera camera_app"

definition matching_app :: "(unit, unit) app" where
  "matching_app = toggle_connect_markers ((start_camera True loaded_app)\<lparr>connect_checkbox := True\<rparr>)"

section \<open>Properties\<close>

subsection \<open>Loading a template\<close>

text \<open>
  C9. When the file dialog is cancelled (empty path), \<open>load_template_image\<close> is a no-op:
  the template, every other field and the console are unchanged, and no error is raised.
\<close>

theorem load_cancelled_is_noop:
  "load_template_image imread [] s = Inr s"
  by (simp add: load_template_image_def)

text \<open>
  C4. A template that decodes and whose longer side is at most 450 is stored as decoded,
  with its own dimensions: \<open>cv2.resize\<close> is not called. Only the success line is printed.
\<close>

theorem load_small_template_unresized:
  assumes "file_path \<noteq> []" and "imread file_path = Some img"
    and "shape img = (height, width)" and "max height width \<le> 450"
  shows "load_template_image imread file_path s =
           Inr (print ''Template image loaded successfully.'' (s\<lparr>template_image := Some img\<rparr>))
         \<and> map_sum id (map_option shape \<circ> template_image) (load_template_image imread file_path s)
             = Inr (Some (height, width))"
proof -
  from assms(4) have small: "\<not> 450 < max height width"
    by (simp add: not_less)
  have "load_template_image imread file_path s =
          Inr (print ''Template image loaded successfully.'' (s\<lparr>template_image := Some img\<rparr>))"
    unfolding load_template_image_def Let_def
    using assms(1-3) small by (simp del: max_less_iff_conj)
  then show ?thesis
    using assms(3) by (simp add: print_def)
qed

theorem load_small_template_unresized_witness:
  "''template.png'' \<noteq> [] \<and> one_file small_template ''template.png'' = Some small_template
   \<and> shape small_template = (300, 400) \<and> max (300::int) 400 \<le> 450
   \<and> load_template_image (one_file small_template) ''template.png'' init_app =
       Inr (print ''Template image loaded successfully.''
             (init_app\<lparr>template_image := Some small_template\<rparr>))
   \<and> map_sum id (map_option shape \<circ> template_image)
        (load_template_image (one_file small_template) ''template.png'' init_app)
       = Inr (Some (300, 400))"
  using load_small_template_unresized
          [of "''template.png''" "one_file small_template" small_template 300 400 init_app]
  by (simp add: one_file_def small_template_def print_def)

text \<open>
  C1, as the code has it. When the chosen file does not decode, \<open>template_image\<close> has
  already been assigned the \<open>None\<close> that \<open>cv2.imread\<close> returned: the template is cleared,
  whatever was loaded before. The failure line is printed and nothing else changes.
\<close>

theorem load_failure_clears_template:
  assumes "file_path \<noteq> []" and "imread file_path = None"
  shows "load_template_image imread file_path s =
           Inr (s\<lparr>template_image := None,
                  stdout := stdout s @ [''Failed to load template image.'']\<rparr>)"
  using assms by (simp add: load_template_image_def print_def)

theorem load_failure_clears_template_witness:
  "''broken.png'' \<noteq> [] \<and> unreadable ''broken.png'' = None
   \<and> load_template_image unreadable ''broken.png'' loaded_app =
       Inr (loaded_app\<lparr>template_image := None,
                        stdout := stdout loaded_app @ [''Failed to load template image.'']\<rparr>)"
  using load_failure_clears_template [of "''broken.png''" unreadable loaded_app]
  by (simp add: unreadable_def)

text \<open>
  C1 as stated fails: with a template loaded, a failed decode does not retain it.
\<close>

theorem load_failure_loses_template:
  "template_image loaded_app = Some small_template
   \<and> map_sum id template_image (load_template_image unreadable ''broken.png'' loaded_app)
       = Inr None
   \<and> load_template_image unreadable ''broken.png'' loaded_app
       \<noteq> Inr (print ''Failed to load template image.'' loaded_app)"
  by (simp add: load_template_image_def unreadable_def loaded_app_def print_def init_app_def)

text \<open>
  The arithmetic of the resize branch on a side of 591 pixels: \<open>450 / 591\<close> rounds
  down to a float \<open>f\<close>, \<open>591 * f\<close> rounds to the float just below 450, and \<open>int\<close>
  truncates it to 449.
\<close>

lemma scaling_591:
  "(case truediv 450 591 of
      Inl e \<Rightarrow> None
    | Inr scaling_factor \<Rightarrow> Some (py_int (int_times_float 591 scaling_factor))) = Some 449"
  by code_simp

text \<open>
  The same arithmetic on a side of 500 pixels gives 450, and the rounding agrees with
  the float that Python prints as \<open>0.1\<close>, whose exact value is
  \<open>3602879701896397 / 2\<^sup>5\<^sup>5\<close>.
\<close>

lemma scaling_500:
  "(case truediv 450 500 of
      Inl e \<Rightarrow> None
    | Inr scaling_factor \<Rightarrow> Some (py_int (int_times_float 500 scaling_factor))) = Some 450"
  by code_simp

lemma round_double_tenth:
  "round_double (1 / 10) = 3602879701896397 / 36028797018963968"
  by code_simp

text \<open>
  A template of one column and 1000 rows: the scaled width is \<open>int(0.45) = 0\<close>, and
  \<open>cv2.resize\<close> raises on the size \<open>(0, 450)\<close>.
\<close>

lemma load_thin_template_raises:
  "load_template_image (one_file (Raster 1000 1 ())) ''template.png'' init_app = Inl Cv2Error"
proof -
  have "(case truediv 450 1000 of
           Inl e \<Rightarrow> None
         | Inr scaling_factor \<Rightarrow>
             Some (py_int (int_times_float 1 scaling_factor),
                   py_int (int_times_float 1000 scaling_factor))) = Some (0, 450)"
    by code_simp
  then obtain scaling_factor where
    "truediv 450 1000 = Inr scaling_factor"
    and "py_int (int_times_float 1 scaling_factor) = 0"
    and "py_int (int_times_float 1000 scaling_factor) = 450"
    by (auto split: sum.splits)
  then show ?thesis
    unfolding load_template_image_def Let_def
    by (simp add: one_file_def resize_def print_def)
qed

text \<open>
  C3 at a square template of 591 by 591 pixels: the longer side exceeds 450, the resize
  branch runs, and the stored template is 449 by 449, not 450 by 450.
\<close>

theorem load_591_square_stored_as_449:
  "load_template_image (one_file square_591) ''template.png'' init_app =
     Inr (init_app\<lparr>template_image := Some (Resize square_591 449 449),
                    stdout := [''Template image loaded successfully.'']\<rparr>)
   \<and> map_sum id (map_option shape \<circ> template_image)
        (load_template_image (one_file square_591) ''template.png'' init_app)
       = Inr (Some (449, 449))"
proof -
  from scaling_591 obtain scaling_factor where
    sf: "truediv 450 591 = Inr scaling_factor"
    and side: "py_int (int_times_float 591 scaling_factor) = 449"
    by (auto split: sum.splits)
  have "load_template_image (one_file square_591) ''template.png'' init_app =
          Inr (init_app\<lparr>template_image := Some (Resize square_591 449 449),
                         stdout := [''Template image loaded successfully.'']\<rparr>)"
    unfolding load_template_image_def Let_def
    by (simp add: one_file_def square_591_def sf side resize_def print_def init_app_def)
  then show ?thesis
    by simp
qed

subsection \<open>Stopping the camera\<close>

text \<open>
  C5, as the code has it. With no capture handle and the camera off, \<open>stop_camera\<close>
  raises nothing and leaves the template, the flags, the handle, the checkboxes and the
  console as they are; it stops the timer and clears the video label, so the state is
  unchanged exactly when the timer is idle and the label already blank. In every state
  a second \<open>stop_camera\<close> changes nothing more.
\<close>

theorem stop_camera_without_capture:
  "(cap s = None \<and> \<not> camera_on s \<longrightarrow>
      stop_camera s = s\<lparr>timer := (timer s)\<lparr>active := False\<rparr>, video_label := Blank\<rparr>
      \<and> (stop_camera s = s \<longleftrightarrow> \<not> active (timer s) \<and> video_label s = Blank))
   \<and> stop_camera (stop_camera s) = stop_camera s"
proof -
  have idem: "stop_camera (stop_camera s) = stop_camera s"
    by (cases "cap s") (simp_all add: stop_camera_def)
  have off: "stop_camera s = s\<lparr>timer := (timer s)\<lparr>active := False\<rparr>, video_label := Blank\<rparr>"
    if "cap s = None" and "\<not> camera_on s"
    using that by (cases s) (simp add: stop_camera_def)
  have same: "stop_camera s = s \<longleftrightarrow> \<not> active (timer s) \<and> video_label s = Blank"
    if "cap s = None" and "\<not> camera_on s"
  proof
    assume "stop_camera s = s"
    then have "active (timer (stop_camera s)) = active (timer s)"
      and "video_label (stop_camera s) = video_label s"
      by simp_all
    then show "\<not> active (timer s) \<and> video_label s = Blank"
      using that by (simp add: stop_camera_def)
  next
    assume "\<not> active (timer s) \<and> video_label s = Blank"
    then show "stop_camera s = s"
      using that by (cases s, cases "timer s") (simp add: stop_camera_def)
  qed
  from idem off same show ?thesis
    by blast
qed

theorem stop_camera_without_capture_witness:
  "cap (init_app :: (unit, unit) app) = None \<and> \<not> camera_on (init_app :: (unit, unit) app)
   \<and> stop_camera (init_app :: (unit, unit) app) = init_app\<lparr>video_label := Blank\<rparr>
   \<and> stop_camera (stop_camera (init_app :: (unit, unit) app)) = stop_camera init_app"
  using stop_camera_without_capture [of "init_app :: (unit, unit) app"]
  by (simp add: init_app_def stop_camera_def)

text \<open>
  C5 as stated fails in the initial state: no capture handle, camera off, and
  \<open>stop_camera\<close> replaces the label's text by nothing.
\<close>

theorem stop_camera_clears_initial_label:
  "cap (init_app :: (unit, unit) app) = None \<and> \<not> camera_on (init_app :: (unit, unit) app)
   \<and> video_label (init_app :: (unit, unit) app) = Text ''Camera feed''
   \<and> video_label (stop_camera (init_app :: (unit, unit) app)) = Blank
   \<and> stop_camera (init_app :: (unit, unit) app) \<noteq> init_app"
  by (simp add: init_app_def stop_camera_def)

subsection \<open>Ticks that display nothing\<close>

text \<open>
  C10. When the capture handle is absent or not open, a tick does nothing: the result
  does not depend on what a read would deliver, nothing is displayed or printed, and the
  state is unchanged.
\<close>

theorem tick_without_open_capture_is_noop:
  assumes "cap s = None \<or> (\<exists>c. cap s = Some c \<and> \<not> opened c)"
  shows "update_frame detectAndCompute bf_match rd s = s"
  using assms by (auto simp add: update_frame_def)

theorem tick_without_open_capture_is_noop_witness:
  "cap (init_app :: (unit, unit) app) = None
   \<and> update_frame two_features many_matches (Some sample_frame) init_app = init_app
   \<and> cap released_app = Some \<lparr>device = 0, opened = False\<rparr>
   \<and> update_frame two_features many_matches (Some sample_frame) released_app = released_app"
  using tick_without_open_capture_is_noop
          [of "init_app :: (unit, unit) app" two_features many_matches "Some sample_frame"]
        tick_without_open_capture_is_noop
          [of released_app two_features many_matches "Some sample_frame"]
  by (simp add: init_app_def released_app_def camera_app_def start_camera_def stop_camera_def)

text \<open>
  C7. When the capture is open and the read fails, the tick prints one line and returns:
  the video label shows what it showed before, and the template, the flags, the capture
  handle, \<open>camera_on\<close> and the timer (still running, so the next tick comes) are unchanged.
\<close>

theorem tick_with_failed_read_is_skipped:
  assumes "cap s = Some c" and "opened c"
  shows "update_frame detectAndCompute bf_match None s =
           s\<lparr>stdout := stdout s @ [''Failed to read frame from camera.'']\<rparr>"
  using assms by (simp add: update_frame_def print_def)

theorem tick_with_failed_read_is_skipped_witness:
  "cap camera_app = Some \<lparr>device = 0, opened = True\<rparr> \<and> opened \<lparr>device = 0, opened = True\<rparr>
   \<and> update_frame two_features many_matches None camera_app =
       camera_app\<lparr>stdout := [''Failed to read frame from camera.'']\<rparr>
   \<and> timer (update_frame two_features many_matches None camera_app)
       = \<lparr>active = True, interval = 30\<rparr>
   \<and> video_label (update_frame two_features many_matches None camera_app)
       = Text ''Camera feed''"
  using tick_with_failed_read_is_skipped
          [of camera_app "\<lparr>device = 0, opened = True\<rparr>" two_features many_matches]
  by (simp add: camera_app_def start_camera_def init_app_def)

subsection \<open>Ticks that display a picture\<close>

text \<open>
  C8. With no template loaded and a frame read, the label shows the frame converted
  from BGR to RGB and nothing drawn on it, whatever the two flags are; nothing else
  changes.
\<close>

theorem tick_without_template_shows_raw_frame:
  assumes "cap s = Some c" and "opened c" and "template_image s = None"
  shows "update_frame detectAndCompute bf_match (Some frame) s =
           s\<lparr>video_label := Pixmap (CvtColor frame COLOR_BGR2RGB)\<rparr>"
  using assms by (simp add: update_frame_def setPixmap_def)

theorem tick_without_template_shows_raw_frame_witness:
  "cap camera_app = Some \<lparr>device = 0, opened = True\<rparr> \<and> opened \<lparr>device = 0, opened = True\<rparr>
   \<and> template_image camera_app = None \<and> display_markers camera_app
   \<and> update_frame two_features many_matches (Some sample_frame) camera_app =
       camera_app\<lparr>video_label := Pixmap (CvtColor sample_frame COLOR_BGR2RGB)\<rparr>"
  using tick_without_template_shows_raw_frame
          [of camera_app "\<lparr>device = 0, opened = True\<rparr>" two_features many_matches sample_frame]
  by (simp add: camera_app_def start_camera_def init_app_def)

text \<open>A composite of two images is not one of its own parts.\<close>

lemma composite_is_not_its_frame:
  "DrawMatches img1 kp1 frame kp2 ms \<noteq> frame"
proof
  assume "DrawMatches img1 kp1 frame kp2 ms = frame"
  then have "size (DrawMatches img1 kp1 frame kp2 ms) = size frame"
    by simp
  then show False
    by simp
qed

text \<open>The drawn matches: the first twenty of the match list sorted by distance.\<close>

lemma best_twenty:
  fixes found :: "dmatch list"
  defines "ms \<equiv> take 20 (sort_key distance found)"
  shows "length ms = min 20 (length found)"
    and "sorted (map distance ms)"
    and "set ms \<subseteq> set found"
    and "\<forall>b\<in>set found. b \<in> set ms \<or> (\<forall>a\<in>set ms. distance a \<le> distance b)"
proof -
  let ?all = "sort_key distance found"
  have sorted_all: "sorted (map distance ?all)"
    by (rule sorted_sort_key)
  show "length ms = min 20 (length found)"
    by (simp add: ms_def min.commute)
  have "sorted (take 20 (map distance ?all))"
    using sorted_all by (rule sorted_wrt_take)
  then show "sorted (map distance ms)"
    by (simp add: ms_def take_map)
  show "set ms \<subseteq> set found"
    using set_take_subset [of 20 ?all] by (simp add: ms_def)
  have "sorted (map distance (take 20 ?all) @ map distance (drop 20 ?all))"
    using sorted_all by (simp flip: map_append)
  then have split: "\<forall>a\<in>set (take 20 ?all). \<forall>b\<in>set (drop 20 ?all). distance a \<le> distance b"
    by (simp add: sorted_append)
  show "\<forall>b\<in>set found. b \<in> set ms \<or> (\<forall>a\<in>set ms. distance a \<le> distance b)"
  proof
    fix b assume "b \<in> set found"
    then have "b \<in> set (take 20 ?all @ drop 20 ?all)"
      by simp
    then have "b \<in> set (take 20 ?all) \<or> b \<in> set (drop 20 ?all)"
      by (simp only: set_append Un_iff)
    with split show "b \<in> set ms \<or> (\<forall>a\<in>set ms. distance a \<le> distance b)"
      by (auto simp add: ms_def)
  qed
qed

text \<open>A tick with a template, a frame and descriptors on both sides, connect-markers on.\<close>

lemma tick_composite:
  assumes "cap s = Some c" and "opened c" and "template_image s = Some tmpl"
    and "connect_markers s"
    and "detectAndCompute tmpl = (kp1, Some d1)"
    and "detectAndCompute (CvtColor frame COLOR_BGR2GRAY) = (kp2, Some d2)"
  shows "update_frame detectAndCompute bf_match (Some frame) s =
           s\<lparr>video_label :=
                Pixmap (CvtColor (DrawMatches (ResizeBy tmpl 1 1) kp1 frame kp2
                                   (take 20 (sort_key distance (bf_match d1 d2))))
                          COLOR_BGR2RGB)\<rparr>"
  using assms by (simp add: update_frame_def with_template_def setPixmap_def)

text \<open>
  C2, as the code has it. On a tick where the capture is open, a frame is read, a
  template is loaded, ORB returns descriptors for both the template and the frame, and
  connect-markers is on, the label shows the side-by-side composite; it shows neither
  the keypoints-only picture nor the raw frame, whatever display-markers is.
\<close>

theorem connect_markers_takes_priority:
  assumes "cap s = Some c" and "opened c" and "template_image s = Some tmpl"
    and "connect_markers s"
    and "detectAndCompute tmpl = (kp1, Some d1)"
    and "detectAndCompute (CvtColor frame COLOR_BGR2GRAY) = (kp2, Some d2)"
  shows "video_label (update_frame detectAndCompute bf_match (Some frame) s) =
           Pixmap (CvtColor (DrawMatches (ResizeBy tmpl 1 1) kp1 frame kp2
                              (take 20 (sort_key distance (bf_match d1 d2))))
                     COLOR_BGR2RGB)
         \<and> video_label (update_frame detectAndCompute bf_match (Some frame) s)
             \<noteq> Pixmap (CvtColor (DrawKeypoints frame kp2) COLOR_BGR2RGB)
         \<and> video_label (update_frame detectAndCompute bf_match (Some frame) s)
             \<noteq> Pixmap (CvtColor frame COLOR_BGR2RGB)"
  using tick_composite [OF assms, of bf_match] composite_is_not_its_frame
  by simp

theorem connect_markers_takes_priority_witness:
  "cap matching_app = Some \<lparr>device = 0, opened = True\<rparr> \<and> opened \<lparr>device = 0, opened = True\<rparr>
   \<and> template_image matching_app = Some small_template
   \<and> connect_markers matching_app \<and> display_markers matching_app
   \<and> two_features small_template = ([(), ()], Some ())
   \<and> two_features (CvtColor sample_frame COLOR_BGR2GRAY) = ([(), ()], Some ())
   \<and> video_label (update_frame two_features no_matches (Some sample_frame) matching_app) =
       Pixmap (CvtColor (DrawMatches (ResizeBy small_template 1 1) [(), ()] sample_frame [(), ()] [])
                 COLOR_BGR2RGB)"
  using connect_markers_takes_priority
          [of matching_app "\<lparr>device = 0, opened = True\<rparr>" small_template two_features
              "[(), ()]" "()" sample_frame "[(), ()]" "()" no_matches]
  by (simp add: matching_app_def toggle_connect_markers_def start_camera_def loaded_app_def
        init_app_def two_features_def no_matches_def)

text \<open>
  C2 as stated fails: connect-markers on and a template loaded, but ORB finds nothing
  (descriptors \<open>None\<close>). The tick shows the keypoints-only picture when display-markers
  is on and the raw frame when it is off.
\<close>

theorem connect_markers_without_descriptors:
  "connect_markers matching_app \<and> template_image matching_app = Some small_template
   \<and> video_label (update_frame no_features no_matches (Some sample_frame) matching_app) =
       Pixmap (CvtColor (DrawKeypoints sample_frame []) COLOR_BGR2RGB)
   \<and> video_label (update_frame no_features no_matches (Some sample_frame)
                    (matching_app\<lparr>display_markers := False\<rparr>)) =
       Pixmap (CvtColor sample_frame COLOR_BGR2RGB)"
  by (simp add: matching_app_def toggle_connect_markers_def start_camera_def loaded_app_def
        init_app_def no_features_def update_frame_def with_template_def setPixmap_def)

text \<open>The sample match list has 22 entries; the best twenty have distances 9 to 28.\<close>

lemma many_matches_best:
  "length (many_matches () ()) = 22
   \<and> map distance (take 20 (sort_key distance (many_matches () ()))) =
       [9, 10, 11, 12, 13, 14, 15, 16, 17, 18, 19, 20, 21, 22, 23, 24, 25, 26, 27, 28]"
  by code_simp

text \<open>
  C6. On a tick with a template loaded, descriptors on both sides and connect-markers
  on, the composite shown has one line for each of the matches \<open>ms\<close>: the first twenty
  of the cross-checked match list sorted by distance. So there are at most twenty, they
  are in ascending order of distance, they are matches of the list, and every match of
  the list that is not drawn is at least as far as every match that is.
\<close>

theorem composite_draws_best_twenty:
  assumes "cap s = Some c" and "opened c" and "template_image s = Some tmpl"
    and "connect_markers s"
    and "detectAndCompute tmpl = (kp1, Some d1)"
    and "detectAndCompute (CvtColor frame COLOR_BGR2GRAY) = (kp2, Some d2)"
  shows "let ms = take 20 (sort_key distance (bf_match d1 d2))
         in video_label (update_frame detectAndCompute bf_match (Some frame) s) =
              Pixmap (CvtColor (DrawMatches (ResizeBy tmpl 1 1) kp1 frame kp2 ms) COLOR_BGR2RGB)
            \<and> length ms \<le> 20
            \<and> length ms = min 20 (length (bf_match d1 d2))
            \<and> sorted (map distance ms)
            \<and> set ms \<subseteq> set (bf_match d1 d2)
            \<and> (\<forall>b\<in>set (bf_match d1 d2).
                  b \<in> set ms \<or> (\<forall>a\<in>set ms. distance a \<le> distance b))"
  unfolding Let_def
  using tick_composite [OF assms, of bf_match] best_twenty [of "bf_match d1 d2"]
  by simp

theorem composite_draws_best_twenty_witness:
  "cap matching_app = Some \<lparr>device = 0, opened = True\<rparr> \<and> opened \<lparr>device = 0, opened = True\<rparr>
   \<and> template_image matching_app = Some small_template \<and> connect_markers matching_app
   \<and> two_features small_template = ([(), ()], Some ())
   \<and> two_features (CvtColor sample_frame COLOR_BGR2GRAY) = ([(), ()], Some ())
   \<and> video_label (update_frame two_features many_matches (Some sample_frame) matching_app) =
       Pixmap (CvtColor (DrawMatches (ResizeBy small_template 1 1) [(), ()] sample_frame [(), ()]
                          (take 20 (sort_key distance (many_matches () ()))))
                 COLOR_BGR2RGB)
   \<and> length (many_matches () ()) = 22
   \<and> length (take 20 (sort_key distance (many_matches () ()))) = 20
   \<and> map distance (take 20 (sort_key distance (many_matches () ()))) =
       [9, 10, 11, 12, 13, 14, 15, 16, 17, 18, 19, 20, 21, 22, 23, 24, 25, 26, 27, 28]"
  using composite_draws_best_twenty
          [of matching_app "\<lparr>device = 0, opened = True\<rparr>" small_template two_features
              "[(), ()]" "()" sample_frame "[(), ()]" "()" many_matches]
        many_matches_best
  by (simp add: Let_def matching_app_def toggle_connect_markers_def start_camera_def
        loaded_app_def init_app_def two_features_def)

end
